theory Spec2Isabelle
  imports Complex_Main "HOL-Library.Sublist"
begin

section \<open>Python values that the two scripts handle\<close>

text \<open>
  The scripts are dynamically typed: what \<open>resp.json()\<close> returns is whatever the server
  sent. A parsed body is a value of \<open>json\<close>. Python's \<open>json\<close> module also reads
  \<open>NaN\<close> and \<open>Infinity\<close>, so a float is a rational or one of the three special values;
  only its truth value matters below. An object is an association list read with
  \<open>map_of\<close>; the parser keeps one binding per key.

  A Python string is a sequence of code points and \<open>len\<close> counts them; here a string is a
  list of \<open>char\<close> and \<open>length\<close> counts its elements.
\<close>

datatype pyfloat = Finite rat | PosInf | NegInf | NaN

datatype json =
    JNull
  | JBool bool
  | JInt int
  | JFloat pyfloat
  | JStr string
  | JList "json list"
  | JDict "(string \<times> json) list"

datatype pyexc = AttributeError | TypeError | ValueError

text \<open>Truth value testing, as \<open>if x\<close>, \<open>not x\<close> and \<open>x or y\<close> apply it.\<close>

fun truthy :: "json \<Rightarrow> bool" where
  "truthy JNull = False"
| "truthy (JBool b) = b"
| "truthy (JInt i) = (i \<noteq> 0)"
| "truthy (JFloat f) = (f \<noteq> Finite 0)"
| "truthy (JStr s) = (s \<noteq> [])"
| "truthy (JList xs) = (xs \<noteq> [])"
| "truthy (JDict kvs) = (kvs \<noteq> [])"

text \<open>\<open>a or b\<close>: the left operand when it is truthy, the right operand otherwise.\<close>

definition py_or :: "json \<Rightarrow> json \<Rightarrow> json" where
  "py_or a b = (if truthy a then a else b)"

text \<open>\<open>d.get(k)\<close> on a dict: the bound value, \<open>None\<close> when the key is absent.\<close>

definition dict_get :: "(string \<times> json) list \<Rightarrow> string \<Rightarrow> json" where
  "dict_get d k = (case map_of d k of None \<Rightarrow> JNull | Some v \<Rightarrow> v)"

text \<open>
  \<open>str(x)\<close>: a string is itself; for every other value Python prints its \<open>repr\<close>, which is
  the interpreter's and is taken as the parameter \<open>repr\<close>.
\<close>

definition py_str :: "(json \<Rightarrow> string) \<Rightarrow> json \<Rightarrow> string" where
  "py_str repr v = (case v of JStr s \<Rightarrow> s | _ \<Rightarrow> repr v)"

text \<open>Decimal digits of an integer, for the f-strings that print a number.\<close>

fun str_nat :: "nat \<Rightarrow> string" where
  "str_nat n =
     (if n < 10 then [''0123456789'' ! n]
      else str_nat (n div 10) @ [''0123456789'' ! (n mod 10)])"

declare str_nat.simps [simp del]

definition str_int :: "int \<Rightarrow> string" where
  "str_int i = (if i < 0 then ''-'' @ str_nat (nat (- i)) else str_nat (nat i))"


section \<open>What a run does: events and outcomes\<close>

text \<open>
  A run is its sequence of events, in order, and its outcome. \<open>Print s\<close> is one call of
  \<open>print\<close> writing \<open>s\<close>; \<open>PrintIndented s\<close> is \<open>print(textwrap.indent(s, "  "))\<close> and
  \<open>PrintShortened s w\<close> is \<open>print(textwrap.shorten(s, w))\<close>, both functions of Python's
  standard library, recorded with their arguments. \<open>ParserOutput\<close> is what \<open>argparse\<close>
  writes before it leaves the process (the help on standard output, a usage error on
  standard error); its wording is the library's. The remaining events are the calls that leave the process. An
  outcome is the exit code of the process (the value \<open>main\<close> returns, which \<open>sys.exit\<close>
  passes on, or the code of a \<open>SystemExit\<close> raised on the way), or an exception that
  nothing catches.
\<close>

datatype event =
    Print string
  | PrintIndented string
  | PrintShortened string nat
  | ParserOutput
  | HttpGet string
  | HttpPost string json
  | CallClient
  | CallGenerateContent string string
  | CallTextGenerate string string

datatype outcome = Exit int | Uncaught pyexc


section \<open>textwrap.shorten\<close>

text \<open>
  The prompt runner displays its result through \<open>textwrap.shorten(text, width)\<close> of
  Python's standard library, which is
  \<open>TextWrapper(width=width, max_lines=1).fill(' '.join(text.strip().split()))\<close>.
  The definitions below follow \<open>Lib/textwrap.py\<close> for that one configuration: no indent,
  the placeholder \<open>' [...]'\<close> of six characters, \<open>drop_whitespace\<close>,
  \<open>break_long_words\<close> and \<open>break_on_hyphens\<close> on, \<open>fix_sentence_endings\<close> off.

  \<open>is_space\<close> holds of the characters \<open>str.isspace\<close> accepts among the first 256 code
  points; they are what \<open>strip()\<close> and \<open>split()\<close> remove.
\<close>

definition is_space :: "char \<Rightarrow> bool" where
  "is_space c = (of_char c \<in> set [9, 10, 11, 12, 13, 28, 29, 30, 31, 32, 133, 160 :: nat])"





text \<open>\<open>chunk.strip() == ''\<close>.\<close>

definition blank :: "string \<Rightarrow> bool" where
  "blank chunk = list_all is_space chunk"

text \<open>\<open>sum(map(len, cur_line))\<close>, which is what \<open>cur_len\<close> holds.\<close>

fun sum_len :: "string list \<Rightarrow> nat" where
  "sum_len [] = 0"
| "sum_len (c # cs) = length c + sum_len cs"

text \<open>
  The inner loop of \<open>_wrap_chunks\<close>: chunks are moved to the current line while
  \<open>cur_len + len(chunk) <= width\<close>. The result is the line and the chunks left.
\<close>

fun take_fitting :: "nat \<Rightarrow> nat \<Rightarrow> string list \<Rightarrow> string list \<times> string list" where
  "take_fitting width cur_len [] = ([], [])"
| "take_fitting width cur_len (c # cs) =
     (if cur_len + length c \<le> width then
        (case take_fitting width (cur_len + length c) cs of (line, rest) \<Rightarrow> (c # line, rest))
      else ([], c # cs))"

text \<open>\<open>chunk.rfind('-', 0, n)\<close>: the last position below \<open>n\<close> that holds a hyphen.\<close>

definition rfind_hyphen :: "string \<Rightarrow> nat \<Rightarrow> nat option" where
  "rfind_hyphen chunk n =
     (let p = take n chunk in
      if CHR ''-'' \<in> set p
      then Some (length p - 1 - length (takeWhile (\<lambda>c. c \<noteq> CHR ''-'') (rev p)))
      else None)"

text \<open>
  \<open>_handle_long_word\<close> with \<open>break_long_words\<close>: the piece of the chunk that goes on the
  current line and the piece that stays. The cut is after the last hyphen within the
  space left when non-hyphens precede it, else at the space left.
\<close>

definition handle_long_word :: "string \<Rightarrow> nat \<Rightarrow> nat \<Rightarrow> string \<times> string" where
  "handle_long_word chunk cur_len width =
     (let space_left = (if width < 1 then 1 else width - cur_len);
          cut =
            (if length chunk > space_left then
               (case rfind_hyphen chunk space_left of
                  Some hyphen \<Rightarrow>
                    if hyphen > 0 \<and> list_ex (\<lambda>c. c \<noteq> CHR ''-'') (take hyphen chunk)
                    then hyphen + 1 else space_left
                | None \<Rightarrow> space_left)
             else space_left)
      in (take cut chunk, drop cut chunk))"

text \<open>
  The loop that makes room for the placeholder, on the current line last chunk first:
  chunks are dropped from the end until the last one is not blank and the placeholder
  fits. \<open>None\<close>: the line ran out.
\<close>

fun add_placeholder :: "nat \<Rightarrow> string list \<Rightarrow> string option" where
  "add_placeholder width [] = None"
| "add_placeholder width (c # cs) =
     (if \<not> blank c \<and> sum_len (c # cs) + 6 \<le> width
      then Some (concat (rev (c # cs)) @ '' [...]'')
      else add_placeholder width cs)"

text \<open>
  One pass of the outer loop of \<open>_wrap_chunks\<close> with \<open>max_lines = 1\<close>, on chunks that are
  not empty: \<open>Again\<close> when the loop goes on with the chunks and lines given, \<open>Stop\<close> when
  it leaves through \<open>break\<close>.
\<close>

datatype pass = Again "string list" "string list" | Stop "string list"

definition wrap_line :: "nat \<Rightarrow> string list \<Rightarrow> string list \<Rightarrow> pass" where
  "wrap_line width chunks lines =
     (let chunks1 = (if blank (hd chunks) \<and> lines \<noteq> [] then tl chunks else chunks);
          (cur, rest) = take_fitting width 0 chunks1;
          (cur2, rest2) =
            (case rest of
               [] \<Rightarrow> (cur, rest)
             | r # rs \<Rightarrow>
                 if length r > width then
                   (case handle_long_word r (sum_len cur) width of
                      (piece, left) \<Rightarrow> (cur @ [piece], left # rs))
                 else (cur, rest));
          cur3 = (if cur2 \<noteq> [] \<and> blank (last cur2) then butlast cur2 else cur2)
      in
        if cur3 = [] then Again rest2 lines
        else if (rest2 = [] \<or> (length rest2 = 1 \<and> blank (hd rest2))) \<and> sum_len cur3 \<le> width
          then Again rest2 (lines @ [concat cur3])
        else
          (case add_placeholder width (rev cur3) of
             Some line \<Rightarrow> Stop (lines @ [line])
           | None \<Rightarrow>
               if lines \<noteq> []
                  \<and> length (rev (dropWhile is_space (rev (last lines)))) + 6 \<le> width
               then Stop (butlast lines
                            @ [rev (dropWhile is_space (rev (last lines))) @ '' [...]''])
               else Stop (lines @ [''[...]''])))"

text \<open>Every pass that goes on has used up a chunk or part of one.\<close>

definition weight :: "string list \<Rightarrow> nat" where
  "weight cs = sum_len cs + length cs"

lemma sum_len_append: "sum_len (a @ b) = sum_len a + sum_len b"
  by (induction a) auto

lemma take_fitting_sum:
  "take_fitting w n cs = (line, rest) \<Longrightarrow> cs = line @ rest"
  by (induction cs arbitrary: n line rest) (auto split: if_splits prod.splits)

lemma take_fitting_first:
  "take_fitting w 0 (c # cs) = ([], rest) \<Longrightarrow> rest = c # cs \<and> w < length c"
  by (auto split: if_splits prod.splits)

lemma wrap_line_again:
  assumes "chunks \<noteq> []" and "wrap_line width chunks lines = Again rest ls"
  shows "weight rest < weight chunks"
proof -
  obtain c cs where ch: "chunks = c # cs" using assms(1) by (cases chunks) auto
  define chunks1
    where "chunks1 = (if blank (hd chunks) \<and> lines \<noteq> [] then tl chunks else chunks)"
  obtain cur rst where tf: "take_fitting width 0 chunks1 = (cur, rst)" by force
  have c1: "chunks1 = cur @ rst" using take_fitting_sum [OF tf] .
  define p where "p = (case rst of
               [] \<Rightarrow> (cur, rst)
             | r # rs \<Rightarrow>
                 if length r > width then
                   (case handle_long_word r (sum_len cur) width of
                      (piece, left) \<Rightarrow> (cur @ [piece], left # rs))
                 else (cur, rst))"
  have rest_eq: "rest = snd p"
    using assms(2) tf
    by (auto simp: wrap_line_def Let_def chunks1_def p_def
             split: prod.splits if_splits option.splits)
  show ?thesis
  proof (cases "chunks1 = chunks")
    case False
    then have "chunks1 = cs" by (auto simp: chunks1_def ch split: if_splits)
    then have a: "weight chunks1 < weight chunks" by (simp add: ch weight_def)
    have "weight (snd p) \<le> weight rst"
      by (auto simp: p_def weight_def handle_long_word_def Let_def
               split: list.splits prod.splits)
    moreover have "weight rst \<le> weight chunks1" by (simp add: c1 weight_def sum_len_append)
    ultimately show ?thesis using a rest_eq by simp
  next
    case True
    show ?thesis
    proof (cases cur)
      case (Cons a as)
      have "weight (snd p) \<le> weight rst"
        by (auto simp: p_def weight_def handle_long_word_def Let_def
                 split: list.splits prod.splits)
      moreover have "weight rst < weight chunks1"
        by (simp add: c1 Cons weight_def sum_len_append)
      ultimately show ?thesis using True rest_eq by simp
    next
      case Nil
      then have "rst = c # cs \<and> width < length c"
        using tf True take_fitting_first [of width c cs rst] by (simp add: ch)
      then have "weight (snd p) < weight chunks"
        by (auto simp: p_def Nil ch weight_def handle_long_word_def Let_def
                 split: option.splits)
      then show ?thesis using rest_eq by simp
    qed
  qed
qed

text \<open>\<open>_wrap_chunks\<close>: the outer loop, from the chunks in order and the lines so far.\<close>

function wrap_chunks :: "nat \<Rightarrow> string list \<Rightarrow> string list \<Rightarrow> string list" where
  "wrap_chunks width chunks lines =
     (if chunks = [] then lines
      else (case wrap_line width chunks lines of
              Stop ls \<Rightarrow> ls
            | Again rest ls \<Rightarrow> wrap_chunks width rest ls))"
  by pat_completeness auto
termination
  by (relation "measure (\<lambda>(width, chunks, lines). weight chunks)")
     (auto dest: wrap_line_again)

declare wrap_chunks.simps [simp del]





section \<open>scripts/check_gemini_key.py\<close>

text \<open>\<open>short(s, length)\<close>; the default \<open>length = 400\<close> is written at each call.\<close>

definition short :: "string \<Rightarrow> nat \<Rightarrow> string" where
  "short s n = (if length s \<le> n then s else take n s @ ''...'')"

text \<open>
  \<open>short\<close> as \<open>main\<close> calls it on a model's name, which is any parsed value.
  \<open>len\<close> of a number, a boolean or \<open>None\<close> raises \<open>TypeError\<close>. A list or a dict has a
  \<open>len\<close>; within the bound it is returned as it is, and beyond it \<open>s[:length] + "..."\<close>
  raises (list plus string; a dict cannot be sliced, which is \<open>TypeError\<close> up to
  Python 3.11 and \<open>KeyError\<close> from 3.12 on, caught by nothing either way).
\<close>

fun short_value :: "json \<Rightarrow> nat \<Rightarrow> pyexc + json" where
  "short_value (JStr s) n = Inr (JStr (short s n))"
| "short_value (JList xs) n = (if length xs \<le> n then Inr (JList xs) else Inl TypeError)"
| "short_value (JDict d) n =
     (if length (remdups (map fst d)) \<le> n then Inr (JDict d) else Inl TypeError)"
| "short_value v n = Inl TypeError"

text \<open>
  The response of \<open>requests.get\<close>: its status, its text, and what \<open>resp.json()\<close> gives
  (\<open>None\<close> when it raises \<open>ValueError\<close>). The call itself returns a response or raises a
  \<open>RequestException\<close> whose string form is kept.
\<close>

record response =
  status_code :: int
  body_text :: string
  body_json :: "json option"

datatype net_result = RequestException string | Response response

definition endpoint :: "string \<Rightarrow> string" where
  "endpoint api_key =
     ''https://generativelanguage.googleapis.com/v1beta2/models?key='' @ api_key"

text \<open>The format heuristic: the line printed for a credential.\<close>

definition format_line :: "string \<Rightarrow> string" where
  "format_line api_key =
     (if prefix ''AIza'' api_key then ''- Looks like a Google API key (starts with 'AIza').''
      else if prefix ''sk-'' api_key
        then ''- Looks like an OpenAI-style secret key (starts with 'sk-').''
      else ''- Key format unknown. Will still attempt a validation request.'')"

text \<open>
  \<open>data.get("models") or data.get("model") or data.get("availableModels")\<close>, with the
  field names it has read, in order: \<open>or\<close> evaluates its right operand only when the
  left one is falsy.
\<close>

definition select_models :: "(string \<times> json) list \<Rightarrow> json \<times> string list" where
  "select_models data =
     (let a = dict_get data ''models'' in
      if truthy a then (a, [''models''])
      else
        let b = dict_get data ''model'' in
        if truthy b then (b, [''models'', ''model''])
        else (dict_get data ''availableModels'', [''models'', ''model'', ''availableModels'']))"

text \<open>The name of one entry: \<open>m.get("name") or m.get("model") or str(m)\<close> for a dict.\<close>

definition entry_name :: "(json \<Rightarrow> string) \<Rightarrow> json \<Rightarrow> json" where
  "entry_name repr m =
     (case m of
        JDict d \<Rightarrow>
          py_or (dict_get d ''name'') (py_or (dict_get d ''model'') (JStr (py_str repr m)))
      | _ \<Rightarrow> JStr (py_str repr m))"

text \<open>
  The loop over \<open>models[:10]\<close>: one \<open>print("  -", short(name, 200))\<close> per entry. An
  exception ends the loop and the run; what was printed before it stays printed.
\<close>

fun print_models :: "(json \<Rightarrow> string) \<Rightarrow> json list \<Rightarrow> event list \<times> pyexc option" where
  "print_models repr [] = ([], None)"
| "print_models repr (m # ms) =
     (case short_value (entry_name repr m) 200 of
        Inl e \<Rightarrow> ([], Some e)
      | Inr v \<Rightarrow>
          (case print_models repr ms of
             (evs, r) \<Rightarrow> (Print (''  - '' @ py_str repr v) # evs, r)))"

text \<open>The body of the \<open>code == 200\<close> branch once \<open>resp.json()\<close> has returned \<open>data\<close>.\<close>

definition on_data :: "(json \<Rightarrow> string) \<Rightarrow> response \<Rightarrow> json \<Rightarrow> event list \<times> outcome" where
  "on_data repr resp data =
     (case data of
        JDict d \<Rightarrow>
          (case fst (select_models d) of
             JList ms \<Rightarrow>
               (case print_models repr (take 10 ms) of
                  (evs, r) \<Rightarrow>
                    (Print (''- Key appears valid. '' @ str_nat (length ms) @ '' model(s) returned:'')
                       # evs,
                     case r of None \<Rightarrow> Exit 0 | Some e \<Rightarrow> Uncaught e))
           | _ \<Rightarrow>
               ([Print ''- Key appears valid (200). Response:'',
                 PrintIndented (short (body_text resp) 400)],
                Exit 0))
      | _ \<Rightarrow> ([], Uncaught AttributeError))"

text \<open>Everything after \<open>requests.get\<close> has returned a response.\<close>

definition on_response :: "(json \<Rightarrow> string) \<Rightarrow> response \<Rightarrow> event list \<times> outcome" where
  "on_response repr resp =
     (let code = status_code resp;
          status = Print (''- HTTP status: '' @ str_int code)
      in
        if code = 200 then
          (case body_json resp of
             None \<Rightarrow>
               ([status,
                 Print ''- Received 200 but response is not valid JSON. Key may be partially valid.''],
                Exit 0)
           | Some data \<Rightarrow>
               (case on_data repr resp data of (evs, out) \<Rightarrow> (status # evs, out)))
        else if code = 401 \<or> code = 403 then
          ([status,
            Print ''- Unauthorized or forbidden. The API key is invalid or lacks permissions.'',
            PrintIndented (short (body_text resp) 400)],
           Exit 4)
        else
          ([status,
            Print ''- Received unexpected status. Response body (truncated):'',
            PrintIndented (short (body_text resp) 400)],
           Exit 5))"

text \<open>What \<open>main\<close> prints before the request, and the request.\<close>

definition before_request :: "string \<Rightarrow> event list" where
  "before_request api_key =
     [Print ''Found GEMINI_API_KEY (hidden). Performing basic checks...'',
      Print (format_line api_key),
      Print (''- Requesting models endpoint: '' @ endpoint api_key),
      HttpGet (endpoint api_key)]"

text \<open>
  \<open>main\<close> of the key validator. \<open>env\<close> is what \<open>os.getenv("GEMINI_API_KEY")\<close> returns
  after \<open>load_dotenv()\<close>; \<open>get\<close> is the network, answering \<open>requests.get\<close> for a URL.
\<close>

definition main_check ::
  "(json \<Rightarrow> string) \<Rightarrow> string option \<Rightarrow> (string \<Rightarrow> net_result) \<Rightarrow> event list \<times> outcome" where
  "main_check repr env get =
     (case env of
        None \<Rightarrow> ([Print ''GEMINI_API_KEY not found in environment or .env file.''], Exit 2)
      | Some api_key \<Rightarrow>
          if api_key = [] then
            ([Print ''GEMINI_API_KEY not found in environment or .env file.''], Exit 2)
          else
            (case get (endpoint api_key) of
               RequestException exc \<Rightarrow>
                 (before_request api_key
                    @ [Print (''Network error while attempting to validate the key: '' @ exc)],
                  Exit 3)
             | Response resp \<Rightarrow>
                 (case on_response repr resp of
                    (evs, out) \<Rightarrow> (before_request api_key @ evs, out))))"


section \<open>scripts/gemini_generate.py\<close>

text \<open>
  The optional library is whatever \<open>from google import genai\<close> finds. Its values are
  objects with a truth value, a string form and attributes; reading an attribute may
  run a property, which returns a value or raises. Every exception here is an instance
  of \<open>Exception\<close>, kept as its string form.
\<close>

datatype 'a call = Returns 'a | Raises string

datatype pyobj =
    PNone
  | PStr string
  | PObject bool string "(string \<times> pyattr) list"
and pyattr = Has pyobj | RaisesAttributeError string | RaisesOther string

fun truthy_obj :: "pyobj \<Rightarrow> bool" where
  "truthy_obj PNone = False"
| "truthy_obj (PStr s) = (s \<noteq> [])"
| "truthy_obj (PObject b s attrs) = b"

fun str_obj :: "pyobj \<Rightarrow> string" where
  "str_obj PNone = ''None''"
| "str_obj (PStr s) = s"
| "str_obj (PObject b s attrs) = s"

text \<open>
  \<open>getattr(o, name, default)\<close> for the two names the script reads, \<open>text\<close> and
  \<open>response\<close>, which neither \<open>None\<close> nor a string has. A missing attribute gives the
  default, and so does a property that raises \<open>AttributeError\<close>, which \<open>getattr\<close> with a
  default catches; a property that raises anything else lets the exception through.
\<close>

fun getattr :: "pyobj \<Rightarrow> string \<Rightarrow> pyobj \<Rightarrow> pyobj call" where
  "getattr (PObject b s attrs) name dflt =
     (case map_of attrs name of
        None \<Rightarrow> Returns dflt
      | Some (Has v) \<Rightarrow> Returns v
      | Some (RaisesAttributeError e) \<Rightarrow> Returns dflt
      | Some (RaisesOther e) \<Rightarrow> Raises e)"
| "getattr obj name dflt = Returns dflt"

text \<open>
  The module's surface as \<open>hasattr\<close> sees it. \<open>Client = None\<close>: the module has no
  \<open>Client\<close>; otherwise calling it returns a client (or \<open>None\<close>) or raises. A client may
  have \<open>models\<close>, which may have \<open>generate_content\<close>; the module may have \<open>Text\<close>, which
  may have \<open>generate\<close>. Both operations take the model and the prompt.
\<close>

type_synonym gen_fn = "string \<Rightarrow> string \<Rightarrow> pyobj call"

record models_ns =
  generate_content :: "gen_fn option"

record client =
  models :: "models_ns option"

record text_ns =
  generate :: "gen_fn option"

record genai =
  Client :: "client option call option"
  Text :: "text_ns option"

text \<open>Lines 29 to 31: \<open>client = None\<close>, then \<open>genai.Client()\<close> when the module has it.\<close>

definition make_client :: "genai \<Rightarrow> client option call \<times> event list" where
  "make_client g =
     (case Client g of None \<Rightarrow> (Returns None, []) | Some made \<Rightarrow> (made, [CallClient]))"

text \<open>The condition of line 33, giving the operation when all three tests hold.\<close>

definition content_fn :: "client option \<Rightarrow> gen_fn option" where
  "content_fn c =
     (case c of
        None \<Rightarrow> None
      | Some cl \<Rightarrow> (case models cl of None \<Rightarrow> None | Some ns \<Rightarrow> generate_content ns))"

text \<open>The condition of line 42.\<close>

definition text_fn :: "genai \<Rightarrow> gen_fn option" where
  "text_fn g = (case Text g of None \<Rightarrow> None | Some t \<Rightarrow> generate t)"

text \<open>
  Lines 36 to 39: \<open>getattr(resp, "text", None) or getattr(resp, "response", resp)\<close>, and
  \<open>resp\<close> itself when reading either attribute raises.
\<close>

definition extract_text :: "pyobj \<Rightarrow> pyobj" where
  "extract_text resp =
     (case getattr resp ''text'' PNone of
        Raises e \<Rightarrow> resp
      | Returns t \<Rightarrow>
          if truthy_obj t then t
          else (case getattr resp ''response'' resp of Raises e \<Rightarrow> resp | Returns r \<Rightarrow> r))"

text \<open>
  \<open>try_genai_library\<close>: the pair it returns (the result and the error, \<open>None\<close> or a
  reason) and the calls into the library it made. \<open>sdk = None\<close>: the import raises.
\<close>

definition try_genai_library ::
  "genai option \<Rightarrow> string \<Rightarrow> string \<Rightarrow> string \<Rightarrow> (pyobj \<times> string option) \<times> event list" where
  "try_genai_library sdk model prompt api_key =
     (case sdk of
        None \<Rightarrow> ((PNone, Some ''google-genai library not available''), [])
      | Some g \<Rightarrow>
          (case make_client g of
             (Raises e, evs) \<Rightarrow> ((PNone, Some (''google-genai call failed: '' @ e)), evs)
           | (Returns c, evs) \<Rightarrow>
               (case content_fn c of
                  Some f \<Rightarrow>
                    (case f model prompt of
                       Raises e \<Rightarrow>
                         ((PNone, Some (''google-genai call failed: '' @ e)),
                          evs @ [CallGenerateContent model prompt])
                     | Returns resp \<Rightarrow>
                         ((extract_text resp, None), evs @ [CallGenerateContent model prompt]))
                | None \<Rightarrow>
                    (case text_fn g of
                       Some f \<Rightarrow>
                         (case f model prompt of
                            Raises e \<Rightarrow>
                              ((PNone, Some (''google-genai call failed: '' @ e)),
                               evs @ [CallTextGenerate model prompt])
                          | Returns resp \<Rightarrow>
                              ((resp, None), evs @ [CallTextGenerate model prompt]))
                     | None \<Rightarrow>
                         ((PNone, Some ''google-genai installed but API surface not recognized''),
                          evs)))))"

text \<open>
  \<open>fallback_rest\<close>. \<open>requests = None\<close>: \<open>import requests\<close> raises; otherwise it answers
  \<open>requests.post\<close> for a URL and a JSON payload, with a response or an exception. The
  result is \<open>resp.json()\<close>, or \<open>resp.text\<close> when that raises.
\<close>

definition generate_url :: "string \<Rightarrow> string \<Rightarrow> string" where
  "generate_url model api_key =
     ''https://generativelanguage.googleapis.com/v1beta2/models/'' @ model
       @ '':generateText?key='' @ api_key"

definition fallback_rest ::
  "(string \<Rightarrow> json \<Rightarrow> net_result) option \<Rightarrow> string \<Rightarrow> string \<Rightarrow> string
     \<Rightarrow> json call \<times> event list" where
  "fallback_rest requests model prompt api_key =
     (case requests of
        None \<Rightarrow> (Raises (''No module named 'requests'' @ [CHR 0x27]), [])
      | Some post \<Rightarrow>
          (let url = generate_url model api_key;
               payload = JDict [(''input'', JStr prompt)]
           in
             case post url payload of
               RequestException exc \<Rightarrow> (Raises exc, [HttpPost url payload])
             | Response resp \<Rightarrow>
                 (Returns (case body_json resp of Some j \<Rightarrow> j | None \<Rightarrow> JStr (body_text resp)),
                  [HttpPost url payload])))"

text \<open>The line printed before the fallback: the f-string prints \<open>None\<close> as \<open>None\<close>.\<close>

definition not_used_line :: "string option \<Rightarrow> string" where
  "not_used_line err =
     ''google-genai not used: '' @ (case err of None \<Rightarrow> ''None'' | Some reason \<Rightarrow> reason)
       @ ''. Falling back to REST endpoint...''"

text \<open>
  What \<open>parser.parse_args()\<close> does with the command line: it returns the namespace,
  with \<open>args.model\<close> (the given model or the default \<open>gemini-2.5-flash\<close>) and
  \<open>args.prompt\<close>, or it writes a message and leaves the process through \<open>SystemExit\<close>
  with a code: 0 after the help that \<open>-h\<close> or \<open>--help\<close> asks for, 2 after a usage
  error such as a missing \<open>--prompt\<close>. \<open>argparse\<close> is the standard library's; its
  outcome is an input of \<open>main\<close>.
\<close>

datatype parsed = Namespace string string | ParserExit int

text \<open>
  \<open>main\<close> of the prompt runner. The arguments are parsed first (lines 68 to 71), then
  the credential is read (line 73); \<open>env\<close> is the credential as \<open>os.getenv\<close> returns it.
\<close>

definition main_generate ::
  "(json \<Rightarrow> string) \<Rightarrow> string option \<Rightarrow> parsed \<Rightarrow> genai option
     \<Rightarrow> (string \<Rightarrow> json \<Rightarrow> net_result) option \<Rightarrow> event list \<times> outcome" where
  "main_generate repr env args sdk requests =
     (case args of
        ParserExit code \<Rightarrow> ([ParserOutput], Exit code)
      | Namespace model prompt \<Rightarrow>
          (case env of
             None \<Rightarrow>
               ([Print ''GEMINI_API_KEY not found in environment or .env. Set it and retry.''],
                Exit 2)
           | Some api_key \<Rightarrow>
               if api_key = [] then
                 ([Print ''GEMINI_API_KEY not found in environment or .env. Set it and retry.''],
                  Exit 2)
               else
                 (case try_genai_library sdk model prompt api_key of
                    ((result, err), evs) \<Rightarrow>
                      if err = None \<and> result \<noteq> PNone then
                        (Print (''Using model: '' @ model) # evs
                           @ [Print ''--- Result (google-genai library) ---'',
                              PrintShortened (str_obj result) 4000],
                         Exit 0)
                      else
                        (case fallback_rest requests model prompt api_key of
                           (Raises exc, evs2) \<Rightarrow>
                             (Print (''Using model: '' @ model) # evs
                                @ Print (not_used_line err) # evs2
                                @ [Print (''REST request failed: '' @ exc)],
                              Exit 3)
                         | (Returns rest_res, evs2) \<Rightarrow>
                             (Print (''Using model: '' @ model) # evs
                                @ Print (not_used_line err) # evs2
                                @ [Print ''--- Result (REST fallback) ---'',
                                   PrintShortened (py_str repr rest_res) 4000],
                              Exit 0)))))"

text \<open>The events that leave the process: a request, or a call into the library.\<close>

fun is_external :: "event \<Rightarrow> bool" where
  "is_external (Print s) = False"
| "is_external (PrintIndented s) = False"
| "is_external (PrintShortened s w) = False"
| "is_external ParserOutput = False"
| "is_external e = True"


fun is_post :: "event \<Rightarrow> bool" where
  "is_post (HttpPost url payload) = True"
| "is_post e = False"


section \<open>Facts shared by the claims\<close>

lemma print_models_only_prints:
  "print_models repr ms = (evs, r) \<Longrightarrow> filter is_external evs = []"
  by (induction ms arbitrary: evs r) (auto split: sum.splits prod.splits)

lemma on_data_only_prints:
  "on_data repr resp data = (evs, out) \<Longrightarrow> filter is_external evs = []"
  by (cases data)
     (auto simp: on_data_def split: json.splits prod.splits dest: print_models_only_prints)

lemma on_response_only_prints: "filter is_external (fst (on_response repr resp)) = []"
  by (auto simp: on_response_def Let_def split: option.splits prod.splits
           dest: on_data_only_prints)

lemma on_response_200:
  "status_code resp = 200 \<Longrightarrow> body_json resp = Some data \<Longrightarrow>
   on_response repr resp =
     (Print ''- HTTP status: 200'' # fst (on_data repr resp data), snd (on_data repr resp data))"
  by (simp add: on_response_def str_int_def str_nat.simps split: prod.splits)

lemma main_check_events:
  "api_key \<noteq> [] \<Longrightarrow>
   fst (main_check repr (Some api_key) get) =
     before_request api_key @
       (case get (endpoint api_key) of
          RequestException exc \<Rightarrow>
            [Print (''Network error while attempting to validate the key: '' @ exc)]
        | Response resp \<Rightarrow> fst (on_response repr resp))"
  by (simp add: main_check_def split: net_result.splits prod.splits)

lemma main_check_outcome:
  "api_key \<noteq> [] \<Longrightarrow>
   snd (main_check repr (Some api_key) get) =
     (case get (endpoint api_key) of
        RequestException exc \<Rightarrow> Exit 3
      | Response resp \<Rightarrow> snd (on_response repr resp))"
  by (simp add: main_check_def split: net_result.splits prod.splits)






lemma extract_text_other_exception:
  "map_of attrs ''text'' = Some (RaisesOther e) \<Longrightarrow>
   extract_text (PObject b s attrs) = PObject b s attrs"
  by (simp add: extract_text_def)



section \<open>Facts about shorten\<close>



lemma wrap_chunks_Nil [simp]: "wrap_chunks w [] lines = lines"
  by (simp add: wrap_chunks.simps)
































section \<open>Truncation\<close>





section \<open>The key validator's exit code\<close>

text \<open>
  Claim C2 says that with a credential present the exit code is 0 whenever the HTTP
  status is 200, whether or not the body parses or holds a models field (and 3, 4, 5, 2
  for a transport error, 401 or 403, any other status, a missing credential). The
  script returns 0 on every path of the 200 branch and catches a body that is not JSON,
  but calls \<open>data.get\<close> on whatever was parsed: a body that is a JSON array has no \<open>get\<close>,
  so \<open>AttributeError\<close> leaves \<open>main\<close> after the status line and no exit code 0 is
  returned.
\<close>

theorem main_check_json_array_uncaught:
  "main_check repr (Some ''AIzaKEY'')
     (\<lambda>url. Response \<lparr>status_code = 200, body_text = ''[]'', body_json = Some (JList [])\<rparr>) =
   (before_request ''AIzaKEY'' @ [Print ''- HTTP status: 200''], Uncaught AttributeError)"
  by (simp add: main_check_def on_response_def on_data_def str_int_def str_nat.simps)


section \<open>Which field holds the models\<close>

text \<open>
  Claim C3 says that the first of \<open>models\<close>, \<open>model\<close>, \<open>availableModels\<close> that is present
  in the body wins, whatever it is bound to, that later names are then never consulted,
  and that the list outcome is taken exactly when that value is a list. The chain is
  \<open>or\<close>, which goes by truth value: with \<open>models\<close> bound to 0 the script goes on to
  \<open>model\<close> and prints its list.
\<close>

theorem select_models_presence_counterexample:
  "map_of [(''models'', JInt 0), (''model'', JList [JStr ''gemini''])] ''models'' = Some (JInt 0) \<and>
   select_models [(''models'', JInt 0), (''model'', JList [JStr ''gemini''])] =
     (JList [JStr ''gemini''], [''models'', ''model'']) \<and>
   on_response (\<lambda>v. [])
     \<lparr>status_code = 200, body_text = ''{}'',
      body_json = Some (JDict [(''models'', JInt 0), (''model'', JList [JStr ''gemini''])])\<rparr> =
     ([Print ''- HTTP status: 200'', Print ''- Key appears valid. 1 model(s) returned:'',
       Print ''  - gemini''], Exit 0)"
  by (simp add: select_models_def dict_get_def on_response_def on_data_def str_int_def
        str_nat.simps entry_name_def py_str_def short_def)

text \<open>
  C3 as the script has it, for every parsed body that is an object: the names are read
  in the order \<open>models\<close>, \<open>model\<close>, \<open>availableModels\<close>; \<open>model\<close> is read exactly when the
  value under \<open>models\<close> is falsy (absent counts as \<open>None\<close>), and \<open>availableModels\<close> exactly
  when both earlier values are falsy; the selected value is the one under the last name
  read; and the list outcome (the line counting the models) is taken when the selected
  value is a list, the opaque outcome otherwise.
\<close>

theorem select_models_first_truthy_wins:
  "hd (snd (select_models d)) = ''models'' \<and>
   prefix (snd (select_models d)) [''models'', ''model'', ''availableModels''] \<and>
   (''model'' \<in> set (snd (select_models d))) = (\<not> truthy (dict_get d ''models'')) \<and>
   (''availableModels'' \<in> set (snd (select_models d))) =
      (\<not> truthy (dict_get d ''models'') \<and> \<not> truthy (dict_get d ''model'')) \<and>
   fst (select_models d) = dict_get d (last (snd (select_models d))) \<and>
   (case fst (select_models d) of
      JList ms \<Rightarrow>
        hd (fst (on_data repr resp (JDict d))) =
          Print (''- Key appears valid. '' @ str_nat (length ms) @ '' model(s) returned:'')
    | _ \<Rightarrow>
        on_data repr resp (JDict d) =
          ([Print ''- Key appears valid (200). Response:'',
            PrintIndented (short (body_text resp) 400)], Exit 0))"
proof -
  have sel:
    "hd (snd (select_models d)) = ''models'' \<and>
     prefix (snd (select_models d)) [''models'', ''model'', ''availableModels''] \<and>
     (''model'' \<in> set (snd (select_models d))) = (\<not> truthy (dict_get d ''models'')) \<and>
     (''availableModels'' \<in> set (snd (select_models d))) =
        (\<not> truthy (dict_get d ''models'') \<and> \<not> truthy (dict_get d ''model'')) \<and>
     fst (select_models d) = dict_get d (last (snd (select_models d)))"
    by (simp add: select_models_def Let_def)
  have out:
    "(case fst (select_models d) of
        JList ms \<Rightarrow>
          hd (fst (on_data repr resp (JDict d))) =
            Print (''- Key appears valid. '' @ str_nat (length ms) @ '' model(s) returned:'')
      | _ \<Rightarrow>
          on_data repr resp (JDict d) =
            ([Print ''- Key appears valid (200). Response:'',
              PrintIndented (short (body_text resp) 400)], Exit 0))"
    by (simp add: on_data_def split: json.splits prod.splits)
  from sel out show ?thesis by blast
qed

theorem select_models_first_truthy_wins_witness:
  "select_models [(''models'', JList []), (''availableModels'', JList [JStr ''gemini''])] =
     (JList [JStr ''gemini''], [''models'', ''model'', ''availableModels'']) \<and>
   hd (fst (on_data (\<lambda>v. []) \<lparr>status_code = 200, body_text = ''{}'', body_json = None\<rparr>
         (JDict [(''models'', JList []), (''availableModels'', JList [JStr ''gemini''])]))) =
     Print ''- Key appears valid. 1 model(s) returned:''"
  using select_models_first_truthy_wins
    [of "[(''models'', JList []), (''availableModels'', JList [JStr ''gemini''])]"
        "\<lambda>v. []" "\<lparr>status_code = 200, body_text = ''{}'', body_json = None\<rparr>"]
  by (simp add: select_models_def dict_get_def str_nat.simps)


section \<open>The entries of the models list\<close>

text \<open>
  Claim C4 says that for every HTTP 200 response whose body maps \<open>models\<close> to a list of
  \<open>N \<ge> 1\<close> entries the validator prints \<open>min N 10\<close> entry lines (a dict entry's \<open>name\<close>,
  else its \<open>model\<close>, else its string form) and returns 0. The script passes the name it
  found to \<open>short\<close> without making it a string: for the one entry \<open>{"name": 5}\<close> the call
  \<open>len(5)\<close> raises \<open>TypeError\<close>, after the counting line and before any entry line.
\<close>

theorem main_check_numeric_name_uncaught:
  "main_check repr (Some ''AIzaKEY'')
     (\<lambda>url. Response
        \<lparr>status_code = 200, body_text = ''{}'',
         body_json = Some (JDict [(''models'', JList [JDict [(''name'', JInt 5)]])])\<rparr>) =
   (before_request ''AIzaKEY'' @
      [Print ''- HTTP status: 200'', Print ''- Key appears valid. 1 model(s) returned:''],
    Uncaught TypeError)"
  by (simp add: main_check_def on_response_def on_data_def str_int_def str_nat.simps
        select_models_def dict_get_def entry_name_def py_or_def)


section \<open>The format heuristic\<close>

text \<open>
  Claim C5: for every credential that starts with neither \<open>AIza\<close> nor \<open>sk-\<close> the
  heuristic prints the unknown-format line and the run still issues the GET; for no
  credential does the heuristic change the outcome or keep the request from being sent.
  For every non-empty credential: the first four events are the announcement, the
  heuristic's line, the line with the URL and the GET itself; the GET is the only event
  that leaves the process; and the outcome is a function of the network's answer alone.
\<close>

theorem heuristic_never_blocks_request:
  assumes "api_key \<noteq> []"
  shows "(\<not> prefix ''AIza'' api_key \<and> \<not> prefix ''sk-'' api_key \<longrightarrow>
            format_line api_key =
              ''- Key format unknown. Will still attempt a validation request.'') \<and>
         take 4 (fst (main_check repr (Some api_key) get)) =
           [Print ''Found GEMINI_API_KEY (hidden). Performing basic checks...'',
            Print (format_line api_key),
            Print (''- Requesting models endpoint: '' @ endpoint api_key),
            HttpGet (endpoint api_key)] \<and>
         filter is_external (fst (main_check repr (Some api_key) get)) =
           [HttpGet (endpoint api_key)] \<and>
         snd (main_check repr (Some api_key) get) =
           (case get (endpoint api_key) of
              RequestException exc \<Rightarrow> Exit 3
            | Response resp \<Rightarrow> snd (on_response repr resp))"
proof -
  have a: "take 4 (fst (main_check repr (Some api_key) get)) = before_request api_key"
    using assms by (simp add: main_check_events before_request_def)
  have b: "filter is_external (fst (main_check repr (Some api_key) get)) =
             [HttpGet (endpoint api_key)]"
    using assms on_response_only_prints [of repr]
    by (simp add: main_check_events before_request_def split: net_result.splits)
  show ?thesis
    using assms a b by (simp add: main_check_outcome format_line_def before_request_def)
qed

theorem heuristic_never_blocks_request_witness:
  "format_line ''my-secret'' =
     ''- Key format unknown. Will still attempt a validation request.'' \<and>
   filter is_external
     (fst (main_check (\<lambda>v. []) (Some ''my-secret'') (\<lambda>url. RequestException ''timed out''))) =
     [HttpGet ''https://generativelanguage.googleapis.com/v1beta2/models?key=my-secret''] \<and>
   snd (main_check (\<lambda>v. []) (Some ''my-secret'') (\<lambda>url. RequestException ''timed out'')) =
     Exit 3"
  using heuristic_never_blocks_request
    [of "''my-secret''" "\<lambda>v. []" "\<lambda>url. RequestException ''timed out''"]
  by (simp add: endpoint_def)


section \<open>The prompt runner's fallback\<close>




section \<open>What is taken from the library's response\<close>

text \<open>
  Claim C7 says that the result is the response's \<open>.text\<close> if that attribute is present,
  else its \<open>.response\<close> if present, else the response itself. The script joins the two
  reads with \<open>or\<close>: a \<open>.text\<close> that is present and empty is passed over and \<open>.response\<close> is
  the result.
\<close>

theorem extract_text_present_counterexample:
  "map_of [(''text'', Has (PStr [])), (''response'', Has (PStr ''R''))] ''text'' =
     Some (Has (PStr [])) \<and>
   fst (try_genai_library
     (Some \<lparr>Client = Some (Returns (Some \<lparr>models = Some \<lparr>generate_content =
               Some (\<lambda>m p. Returns (PObject True ''obj''
                  [(''text'', Has (PStr [])), (''response'', Has (PStr ''R''))]))\<rparr>\<rparr>)),
            Text = None\<rparr>) ''gemini-2.5-flash'' ''hi'' ''AIzaKEY'') = (PStr ''R'', None)"
  by (simp add: try_genai_library_def make_client_def content_fn_def extract_text_def)

text \<open>
  C7 as the script has it, when \<open>generate_content\<close> returns an object: no error is
  reported; the result is \<open>.text\<close> when it is present and truthy; otherwise it is
  \<open>.response\<close> if that is present, whatever its value, and the returned object itself
  if \<open>.response\<close> is absent. An attribute is absent when \<open>getattr\<close> gives its default:
  the object has no such attribute, or reading it raises \<open>AttributeError\<close>.
\<close>

theorem extract_text_truthy_order:
  assumes "make_client g = (Returns c, evs)" and "content_fn c = Some f"
    and "f model prompt = Returns (PObject b s attrs)"
  shows "snd (fst (try_genai_library (Some g) model prompt api_key)) = None \<and>
         (\<forall>t. map_of attrs ''text'' = Some (Has t) \<and> truthy_obj t \<longrightarrow>
            fst (fst (try_genai_library (Some g) model prompt api_key)) = t) \<and>
         (map_of attrs ''text'' = None \<or>
          (\<exists>e. map_of attrs ''text'' = Some (RaisesAttributeError e)) \<or>
          (\<exists>t. map_of attrs ''text'' = Some (Has t) \<and> \<not> truthy_obj t) \<longrightarrow>
            (\<forall>r. map_of attrs ''response'' = Some (Has r) \<longrightarrow>
               fst (fst (try_genai_library (Some g) model prompt api_key)) = r) \<and>
            (map_of attrs ''response'' = None \<or>
             (\<exists>e. map_of attrs ''response'' = Some (RaisesAttributeError e)) \<longrightarrow>
               fst (fst (try_genai_library (Some g) model prompt api_key)) =
                 PObject b s attrs))"
proof -
  have r: "try_genai_library (Some g) model prompt api_key =
             ((extract_text (PObject b s attrs), None), evs @ [CallGenerateContent model prompt])"
    using assms by (simp add: try_genai_library_def)
  show ?thesis
    unfolding r by (auto simp: extract_text_def)
qed

theorem extract_text_truthy_order_witness:
  "fst (try_genai_library
     (Some \<lparr>Client = Some (Returns (Some \<lparr>models = Some \<lparr>generate_content =
               Some (\<lambda>m p. Returns (PObject True ''obj''
                  [(''text'', RaisesAttributeError ''no text''),
                   (''response'', Has (PStr ''R''))]))\<rparr>\<rparr>)),
            Text = None\<rparr>) ''gemini-2.5-flash'' ''hi'' ''AIzaKEY'') = (PStr ''R'', None) \<and>
   fst (try_genai_library
     (Some \<lparr>Client = Some (Returns (Some \<lparr>models = Some \<lparr>generate_content =
               Some (\<lambda>m p. Returns (PObject True ''obj''
                  [(''text'', Has (PStr ''T'')), (''response'', Has (PStr ''R''))]))\<rparr>\<rparr>)),
            Text = None\<rparr>) ''gemini-2.5-flash'' ''hi'' ''AIzaKEY'') = (PStr ''T'', None)"
  using extract_text_truthy_order
     [of "\<lparr>Client = Some (Returns (Some \<lparr>models = Some \<lparr>generate_content =
               Some (\<lambda>m p. Returns (PObject True ''obj''
                  [(''text'', RaisesAttributeError ''no text''),
                   (''response'', Has (PStr ''R''))]))\<rparr>\<rparr>)),
            Text = None\<rparr>"
        "Some \<lparr>models = Some \<lparr>generate_content =
               Some (\<lambda>m p. Returns (PObject True ''obj''
                  [(''text'', RaisesAttributeError ''no text''),
                   (''response'', Has (PStr ''R''))]))\<rparr>\<rparr>"
        "[CallClient]"
        "\<lambda>m p. Returns (PObject True ''obj''
                  [(''text'', RaisesAttributeError ''no text''),
                   (''response'', Has (PStr ''R''))])"
        "''gemini-2.5-flash''" "''hi''" True "''obj''"
        "[(''text'', RaisesAttributeError ''no text''), (''response'', Has (PStr ''R''))]"
        "''AIzaKEY''"]
    extract_text_truthy_order
     [of "\<lparr>Client = Some (Returns (Some \<lparr>models = Some \<lparr>generate_content =
               Some (\<lambda>m p. Returns (PObject True ''obj''
                  [(''text'', Has (PStr ''T'')), (''response'', Has (PStr ''R''))]))\<rparr>\<rparr>)),
            Text = None\<rparr>"
        "Some \<lparr>models = Some \<lparr>generate_content =
               Some (\<lambda>m p. Returns (PObject True ''obj''
                  [(''text'', Has (PStr ''T'')), (''response'', Has (PStr ''R''))]))\<rparr>\<rparr>"
        "[CallClient]"
        "\<lambda>m p. Returns (PObject True ''obj''
                  [(''text'', Has (PStr ''T'')), (''response'', Has (PStr ''R''))])"
        "''gemini-2.5-flash''" "''hi''" True "''obj''"
        "[(''text'', Has (PStr ''T'')), (''response'', Has (PStr ''R''))]" "''AIzaKEY''"]
  by (simp add: make_client_def content_fn_def prod_eq_iff)


section \<open>A missing credential\<close>

text \<open>
  Claim C8 says that for every invocation of either script in which the credential is
  absent, the script returns exit code 2 and issues no network call and no library
  call. The prompt runner parses its arguments before it reads the credential: run
  with \<open>--help\<close> and no credential set, \<open>parse_args\<close> prints the help and leaves with
  exit code 0.
\<close>

theorem help_without_credential_counterexample:
  "main_generate (\<lambda>v. []) None (ParserExit 0) None None = ([ParserOutput], Exit 0) \<and>
   snd (main_generate (\<lambda>v. []) None (ParserExit 0) None None) \<noteq> Exit 2"
  by (simp add: main_generate_def)

text \<open>
  C8 as the scripts have it. With the credential absent, or set to the empty string,
  the key validator's run is its one message and exit code 2, and so is the prompt
  runner's whenever its arguments parse. When \<open>argparse\<close> ends the run, with or without
  a credential, the exit code is the one \<open>argparse\<close> leaves with. In every run without
  a credential, whatever the arguments, no request is sent and the library is not
  called: the credential is checked before any request is built.
\<close>

theorem missing_credential_no_call:
  "main_check repr None get =
     ([Print ''GEMINI_API_KEY not found in environment or .env file.''], Exit 2) \<and>
   main_check repr (Some []) get =
     ([Print ''GEMINI_API_KEY not found in environment or .env file.''], Exit 2) \<and>
   main_generate repr None (Namespace model prompt) sdk requests =
     ([Print ''GEMINI_API_KEY not found in environment or .env. Set it and retry.''], Exit 2) \<and>
   main_generate repr (Some []) (Namespace model prompt) sdk requests =
     ([Print ''GEMINI_API_KEY not found in environment or .env. Set it and retry.''], Exit 2) \<and>
   main_generate repr env (ParserExit code) sdk requests = ([ParserOutput], Exit code) \<and>
   filter is_external (fst (main_check repr None get)) = [] \<and>
   filter is_external (fst (main_check repr (Some []) get)) = [] \<and>
   filter is_external (fst (main_generate repr None args sdk requests)) = [] \<and>
   filter is_external (fst (main_generate repr (Some []) args sdk requests)) = []"
  by (cases args) (simp_all add: main_check_def main_generate_def)


section \<open>Falsy model fields\<close>

text \<open>
  Claim C9 says that for an HTTP 200 body whose \<open>models\<close> is an empty list, or any falsy
  value, the field is skipped, \<open>model\<close> and then \<open>availableModels\<close> are probed, and that
  when all three are falsy the opaque branch is taken with exit code 0 and the line
  counting zero models is never printed. The last operand of an \<open>or\<close> chain is its value
  whatever it is: with \<open>availableModels\<close> an empty list the script takes the list branch
  and prints that line.
\<close>

theorem empty_available_models_counterexample:
  "\<not> truthy (dict_get [(''models'', JList []), (''availableModels'', JList [])] ''models'') \<and>
   \<not> truthy (dict_get [(''models'', JList []), (''availableModels'', JList [])] ''model'') \<and>
   \<not> truthy
       (dict_get [(''models'', JList []), (''availableModels'', JList [])] ''availableModels'') \<and>
   main_check (\<lambda>v. []) (Some ''AIzaKEY'')
     (\<lambda>url. Response \<lparr>status_code = 200, body_text = ''{}'',
         body_json = Some (JDict [(''models'', JList []), (''availableModels'', JList [])])\<rparr>) =
     (before_request ''AIzaKEY'' @
        [Print ''- HTTP status: 200'', Print ''- Key appears valid. 0 model(s) returned:''],
      Exit 0)"
  by (simp add: main_check_def select_models_def dict_get_def on_response_def on_data_def
        str_int_def str_nat.simps)

text \<open>
  C9 as the script has it, for an HTTP 200 response whose parsed body is an object with
  a falsy value under \<open>models\<close>: that field is skipped and \<open>model\<close> is read, and
  \<open>availableModels\<close> after it when \<open>model\<close> is falsy too. Then the value under
  \<open>availableModels\<close> is selected whatever it is: when it is not a list (absent, \<open>None\<close> or
  any other value) the opaque branch prints the truncated body and the exit code is 0;
  when it is the empty list the list branch prints the line counting zero models, no
  entry line, and the exit code is 0.
\<close>

theorem falsy_models_fall_through:
  assumes "status_code resp = 200" and "body_json resp = Some (JDict d)"
    and "\<not> truthy (dict_get d ''models'')"
  shows "snd (select_models d) =
           ''models'' # ''model'' #
             (if truthy (dict_get d ''model'') then [] else [''availableModels'']) \<and>
         (\<not> truthy (dict_get d ''model'') \<longrightarrow>
            fst (select_models d) = dict_get d ''availableModels'' \<and>
            (dict_get d ''availableModels'' = JList [] \<longrightarrow>
               on_response repr resp =
                 ([Print ''- HTTP status: 200'',
                   Print ''- Key appears valid. 0 model(s) returned:''], Exit 0)) \<and>
            ((\<forall>ms. dict_get d ''availableModels'' \<noteq> JList ms) \<longrightarrow>
               on_response repr resp =
                 ([Print ''- HTTP status: 200'',
                   Print ''- Key appears valid (200). Response:'',
                   PrintIndented (short (body_text resp) 400)], Exit 0)))"
proof -
  have a: "snd (select_models d) =
           ''models'' # ''model'' #
             (if truthy (dict_get d ''model'') then [] else [''availableModels''])"
    using assms(3) by (simp add: select_models_def Let_def)
  have b: "\<not> truthy (dict_get d ''model'') \<Longrightarrow>
           fst (select_models d) = dict_get d ''availableModels''"
    using assms(3) by (simp add: select_models_def Let_def)
  have c: "\<not> truthy (dict_get d ''model'') \<Longrightarrow> dict_get d ''availableModels'' = JList [] \<Longrightarrow>
           on_data repr resp (JDict d) =
             ([Print ''- Key appears valid. 0 model(s) returned:''], Exit 0)"
    using b by (simp add: on_data_def str_nat.simps)
  have e: "\<not> truthy (dict_get d ''model'') \<Longrightarrow>
           \<forall>ms. dict_get d ''availableModels'' \<noteq> JList ms \<Longrightarrow>
           on_data repr resp (JDict d) =
             ([Print ''- Key appears valid (200). Response:'',
               PrintIndented (short (body_text resp) 400)], Exit 0)"
    using b by (cases "dict_get d ''availableModels''") (simp_all add: on_data_def)
  show ?thesis
    using a b c e by (simp add: on_response_200 [OF assms(1) assms(2)])
qed

theorem falsy_models_fall_through_witness:
  "on_response (\<lambda>v. [])
     \<lparr>status_code = 200, body_text = ''{}'',
      body_json = Some (JDict [(''models'', JList []), (''availableModels'', JNull)])\<rparr> =
     ([Print ''- HTTP status: 200'', Print ''- Key appears valid (200). Response:'',
       PrintIndented ''{}''], Exit 0)"
  using falsy_models_fall_through
     [of "\<lparr>status_code = 200, body_text = ''{}'',
           body_json = Some (JDict [(''models'', JList []), (''availableModels'', JNull)])\<rparr>"
         "[(''models'', JList []), (''availableModels'', JNull)]" "\<lambda>v. []"]
  by (simp add: dict_get_def short_def)


section \<open>The credential in the output\<close>

text \<open>
  Claim C10: every run of the key validator that reaches the network step writes the
  whole credential to standard output inside the printed URL, after the line that calls
  the key hidden, so what is printed before any response arrives depends on the
  credential. For a non-empty credential the first four events are the line with
  \<open>(hidden)\<close>, the heuristic's line, the line ending in the credential itself, and the
  GET; and the three lines printed before the GET differ between any two different
  credentials, whatever the network would answer.
\<close>

theorem credential_printed_in_url:
  assumes "api_key \<noteq> []"
  shows "take 4 (fst (main_check repr (Some api_key) get)) =
           [Print ''Found GEMINI_API_KEY (hidden). Performing basic checks...'',
            Print (format_line api_key),
            Print (''- Requesting models endpoint: https://generativelanguage.googleapis.com/v1beta2/models?key=''
                     @ api_key),
            HttpGet (''https://generativelanguage.googleapis.com/v1beta2/models?key='' @ api_key)] \<and>
         (\<forall>other get'. other \<noteq> [] \<and> other \<noteq> api_key \<longrightarrow>
            take 3 (fst (main_check repr (Some api_key) get)) \<noteq>
            take 3 (fst (main_check repr (Some other) get')))"
proof -
  have a: "\<And>k g. k \<noteq> [] \<Longrightarrow> take 4 (fst (main_check repr (Some k) g)) = before_request k"
    by (simp add: main_check_events before_request_def)
  have b: "\<And>k g. k \<noteq> [] \<Longrightarrow>
             take 3 (fst (main_check repr (Some k) g)) = take 3 (before_request k)"
    by (simp add: main_check_events before_request_def)
  show ?thesis
    using assms a [of api_key get] by (auto simp: b before_request_def endpoint_def)
qed

theorem credential_printed_in_url_witness:
  "take 3 (fst (main_check (\<lambda>v. []) (Some ''AIzaONE'') (\<lambda>url. RequestException ''down''))) \<noteq>
   take 3 (fst (main_check (\<lambda>v. []) (Some ''AIzaTWO'') (\<lambda>url. RequestException ''down''))) \<and>
   fst (main_check (\<lambda>v. []) (Some ''AIzaONE'') (\<lambda>url. RequestException ''down'')) ! 2 =
     Print ''- Requesting models endpoint: https://generativelanguage.googleapis.com/v1beta2/models?key=AIzaONE''"
proof -
  have k: "''AIzaONE'' \<noteq> []" by simp
  from credential_printed_in_url [OF k, of "\<lambda>v. []" "\<lambda>url. RequestException ''down''"]
  show ?thesis
    by (simp add: main_check_def before_request_def endpoint_def)
qed

end
